theory Spec2Isabelle
  imports Complex_Main "HOL-Library.Word"
begin

section \<open>Strings and numbers of the source language\<close>

text \<open>
  The engine is TypeScript. A string is a sequence of UTF-16 code units, and
  \<^verbatim>\<open>.length\<close> counts code units, so a string is a list of 16-bit words.
  \<open>str\<close> writes an ASCII literal. Word counts (\<^verbatim>\<open>chunkSize\<close>,
  \<^verbatim>\<open>chunkOverlap\<close>, \<^verbatim>\<open>topK\<close>) reach the engine through
  \<^verbatim>\<open>parseInt\<close> and are integers; vector components and scores are modelled
  as real numbers.
\<close>

type_synonym code_unit = "16 word"
type_synonym jsstring = "code_unit list"

definition str :: "string \<Rightarrow> jsstring" where
  "str s = map of_char s"

text \<open>The class \<^verbatim>\<open>\s\<close> of a regular expression: white space and line terminators.\<close>

definition isSpace :: "code_unit \<Rightarrow> bool" where
  "isSpace c \<longleftrightarrow>
     (9 \<le> c \<and> c \<le> 13) \<or> c = 32 \<or> c = 0xA0 \<or> c = 0x1680 \<or>
     (0x2000 \<le> c \<and> c \<le> 0x200A) \<or> c = 0x2028 \<or> c = 0x2029 \<or>
     c = 0x202F \<or> c = 0x205F \<or> c = 0x3000 \<or> c = 0xFEFF"

text \<open>
  \<^verbatim>\<open>text.split(/\s+/)\<close>: the pieces between the maximal runs of white space. A
  leading or trailing run leaves an empty piece, and the empty text is one empty piece.
\<close>

function split_ws :: "jsstring \<Rightarrow> jsstring list" where
  "split_ws s =
     (let w = takeWhile (\<lambda>c. \<not> isSpace c) s;
          rest = dropWhile (\<lambda>c. \<not> isSpace c) s
      in if rest = [] then [w] else w # split_ws (dropWhile isSpace rest))"
  by pat_completeness auto
termination
proof (relation "measure length")
  show "wf (measure (length :: jsstring \<Rightarrow> nat))" by simp
next
  fix s w :: jsstring and rest :: jsstring
  assume rest: "rest = dropWhile (\<lambda>c. \<not> isSpace c) s" and ne: "rest \<noteq> []"
  from ne obtain c cs where cs: "rest = c # cs" by (cases rest) auto
  have "isSpace (hd rest)"
    using hd_dropWhile [of "\<lambda>c. \<not> isSpace c" s] ne rest by simp
  with cs have "dropWhile isSpace rest = dropWhile isSpace cs" by simp
  then have "length (dropWhile isSpace rest) \<le> length cs"
    by (simp add: length_dropWhile_le)
  also have "length cs < length rest" using cs by simp
  also have "length rest \<le> length s" using rest by (simp add: length_dropWhile_le)
  finally show "(dropWhile isSpace rest, s) \<in> measure length" by simp
qed

text \<open>
  \<^verbatim>\<open>Array.prototype.slice(start, end)\<close> on integer arguments: a negative
  index counts from the end, and both are clamped to the array.
\<close>

definition slice :: "'a list \<Rightarrow> int \<Rightarrow> int \<Rightarrow> 'a list" where
  "slice xs start end =
     (let len = int (length xs);
          k = (if start < 0 then max (len + start) 0 else min start len);
          final = (if end < 0 then max (len + end) 0 else min end len)
      in take (nat (final - k)) (drop (nat k) xs))"

text \<open>\<^verbatim>\<open>Array.prototype.join(sep)\<close>.\<close>

fun join :: "jsstring \<Rightarrow> jsstring list \<Rightarrow> jsstring" where
  "join sep [] = []"
| "join sep [w] = w"
| "join sep (w # ws) = w @ sep @ join sep ws"

section \<open>Chunker\<close>

text \<open>
  The \<^verbatim>\<open>for\<close> loop of \<^verbatim>\<open>chunkText\<close>, from the index \<open>i\<close> on, with the chunks
  pushed so far. With a stride \<open>size - overlap \<le> 0\<close> the loop of the source need not
  end, so the loop is a partial function and \<open>None\<close> stands for a run that never returns.
\<close>

partial_function (option) chunkLoop ::
  "jsstring list \<Rightarrow> int \<Rightarrow> int \<Rightarrow> int \<Rightarrow> jsstring list \<Rightarrow> jsstring list option" where
  "chunkLoop words sz overlap i chunks =
     (if i < int (length words) then
        (let chunk = join (str '' '') (slice words i (i + sz));
             chunks' = (if length chunk > 5 then chunks @ [chunk] else chunks)
         in if i + sz \<ge> int (length words) then Some chunks'
            else chunkLoop words sz overlap (i + (sz - overlap)) chunks')
      else Some chunks)"

definition chunkText :: "jsstring \<Rightarrow> int \<Rightarrow> int \<Rightarrow> jsstring list option" where
  "chunkText text sz overlap = chunkLoop (split_ws text) sz overlap 0 []"

section \<open>Tokenizer\<close>

text \<open>
  The stop words of \<^verbatim>\<open>PERSIAN_STOP_WORDS\<close>, in the order of the source, each
  as its UTF-16 code units.
\<close>

definition PERSIAN_STOP_WORDS :: "jsstring list" where
  "PERSIAN_STOP_WORDS =
    [[0x0627, 0x0632], [0x0628, 0x0647], [0x0628, 0x0627], [0x062F, 0x0631],
     [0x0628, 0x0631], [0x0628, 0x0631, 0x0627, 0x06CC], [0x06A9, 0x0647], [0x0648],
     [0x06CC, 0x0627], [0x0627, 0x06AF, 0x0631], [0x0648, 0x0644, 0x06CC],
     [0x0627, 0x0645, 0x0627], [0x062A, 0x0627], [0x0631, 0x0627], [0x0627, 0x06CC, 0x0646],
     [0x0622, 0x0646], [0x06CC, 0x06A9], [0x0647, 0x0627], [0x0647, 0x0627, 0x06CC],
     [0x062F, 0x0631, 0x0628, 0x0627, 0x0631, 0x0647], [0x0645, 0x0648, 0x0631, 0x062F],
     [0x0628, 0x0627, 0x06CC, 0x062F], [0x0634, 0x0627, 0x06CC, 0x062F], [0x0647, 0x0645],
     [0x0646, 0x06CC, 0x0632], [0x067E, 0x0633], [0x0686, 0x0648, 0x0646], [0x0686, 0x0647],
     [0x0686, 0x0631, 0x0627], [0x0628, 0x06CC, 0x0646], [0x062A, 0x062D, 0x062A],
     [0x0631, 0x0648, 0x06CC], [0x0637, 0x06CC], [0x0647, 0x0645, 0x06CC, 0x0646],
     [0x0647, 0x0645, 0x0627, 0x0646], [0x062F, 0x06CC, 0x06AF, 0x0631], [0x0647, 0x0631],
     [0x0647, 0x06CC, 0x0686], [0x0647, 0x0645, 0x0647], [0x062C, 0x0627, 0x06CC, 0x06CC],
     [0x0686, 0x06CC, 0x0632, 0x06CC], [0x06A9, 0x0633, 0x06CC], [0x0628, 0x062E, 0x0634],
     [0x0642, 0x0633, 0x0645, 0x062A], [0x0639, 0x0646, 0x0648, 0x0627, 0x0646],
     [0x0645, 0x062B, 0x0627, 0x0644], [0x0645, 0x0627, 0x0646, 0x0646, 0x062F],
     [0x0645, 0x062B, 0x0644], [0x062A, 0x0648, 0x0633, 0x0637],
     [0x0637, 0x0631, 0x06CC, 0x0642], [0x0627, 0x0633, 0x062A], [0x0647, 0x0633, 0x062A],
     [0x0628, 0x0648, 0x062F], [0x0634, 0x062F], [0x0646, 0x06CC, 0x0633, 0x062A],
     [0x0645, 0x06CC], [0x0646, 0x0645, 0x06CC], [0x0645, 0x0646], [0x062A, 0x0648],
     [0x0627, 0x0648], [0x0645, 0x0627], [0x0634, 0x0645, 0x0627],
     [0x0622, 0x0646, 0x0647, 0x0627],
     [0x0627, 0x0633, 0x062A, 0x0641, 0x0627, 0x062F, 0x0647],
     [0x0635, 0x0648, 0x0631, 0x062A], [0x0627, 0x0646, 0x062C, 0x0627, 0x0645],
     [0x062F, 0x0627, 0x0631, 0x062F], [0x062F, 0x0627, 0x0631, 0x0646, 0x062F],
     [0x062F, 0x0627, 0x0634, 0x062A], [0x062E, 0x0648, 0x0627, 0x0647, 0x0646, 0x062F],
     [0x06A9, 0x0631, 0x062F], [0x06A9, 0x0646, 0x0646, 0x062F],
     [0x06A9, 0x0646, 0x06CC, 0x062F], [0x0628, 0x06A9, 0x0646, 0x06CC, 0x062F],
     [0x0645, 0x06CC, 0x06A9, 0x0646, 0x0646, 0x062F],
     [0x0645, 0x06CC, 0x06A9, 0x0646, 0x062F], [0x0646, 0x0645, 0x0627, 0x06CC, 0x062F],
     [0x06AF, 0x0631, 0x062F, 0x062F]]"

text \<open>
  \<^verbatim>\<open>toLowerCase\<close> on the letters A to Z. The Persian script of the stop words has
  no case; the case mapping of other scripts belongs to the language runtime and is not
  modelled, so such code units stay as they are.
\<close>

definition toLowerCase :: "jsstring \<Rightarrow> jsstring" where
  "toLowerCase s = map (\<lambda>c. if 65 \<le> c \<and> c \<le> 90 then c + 32 else c) s"

text \<open>
  The characters of the first replacement of \<^verbatim>\<open>tokenize\<close>,
  \<^verbatim>\<open>. , / # ! $ % ^ & * ; : { } = - _ ` ~ ( ) ? " ' < > [ ] \ |\<close>,
  and of the second, the code units 200B to 200D and FEFF.
\<close>

definition punctuation :: "code_unit list" where
  "punctuation =
     [46, 44, 47, 35, 33, 36, 37, 94, 38, 42, 59, 58, 123, 125, 61, 45, 95, 96, 126,
      40, 41, 63, 34, 39, 60, 62, 91, 93, 92, 124]"

definition isZeroWidth :: "code_unit \<Rightarrow> bool" where
  "isZeroWidth c \<longleftrightarrow> (0x200B \<le> c \<and> c \<le> 0x200D) \<or> c = 0xFEFF"

text \<open>\<^verbatim>\<open>.replace(/\s+/g, " ")\<close>: every maximal run of white space becomes one space.\<close>

function collapse_ws :: "jsstring \<Rightarrow> jsstring" where
  "collapse_ws [] = []"
| "collapse_ws (c # cs) =
     (if isSpace c then 32 # collapse_ws (dropWhile isSpace cs) else c # collapse_ws cs)"
  by pat_completeness auto
termination
  by (relation "measure length") (auto simp: length_dropWhile_le less_Suc_eq_le)

text \<open>\<^verbatim>\<open>.split(" ")\<close>: the pieces between single separators; never an empty array.\<close>

fun split_on :: "code_unit \<Rightarrow> jsstring \<Rightarrow> jsstring list" where
  "split_on sep [] = [[]]"
| "split_on sep (c # cs) =
     (if c = sep then [] # split_on sep cs
      else (case split_on sep cs of
              [] \<Rightarrow> [[c]]
            | w # ws \<Rightarrow> (c # w) # ws))"

subsection \<open>The truth value of \<^verbatim>\<open>Number(t)\<close>\<close>

text \<open>
  \<^verbatim>\<open>Number(t)\<close> reads \<open>t\<close> by the grammar of numeric string literals: optional
  white space around an optionally signed decimal literal (digits, a dot, an exponent, or
  \<^verbatim>\<open>Infinity\<close>) or an unsigned binary, octal or hexadecimal literal; the empty
  string is 0 and everything else is \<^verbatim>\<open>NaN\<close>. The filter only asks whether the
  number is truthy, that is neither 0 nor \<^verbatim>\<open>NaN\<close>. Each parser returns \<open>None\<close>
  for \<^verbatim>\<open>NaN\<close> and otherwise whether the literal has a nonzero digit. (A literal
  with a nonzero digit can round to 0 only with a dot or a minus sign, and the tokenizer
  has replaced both by spaces.)
\<close>

definition isDigit :: "code_unit \<Rightarrow> bool" where
  "isDigit c \<longleftrightarrow> 48 \<le> c \<and> c \<le> 57"

definition isHexDigit :: "code_unit \<Rightarrow> bool" where
  "isHexDigit c \<longleftrightarrow> isDigit c \<or> (97 \<le> c \<and> c \<le> 102) \<or> (65 \<le> c \<and> c \<le> 70)"

definition decimalDigits :: "jsstring \<Rightarrow> bool" where
  "decimalDigits s \<longleftrightarrow> s \<noteq> [] \<and> list_all isDigit s"

definition exponentPart :: "jsstring \<Rightarrow> bool" where
  "exponentPart s =
     (case s of
        [] \<Rightarrow> True
      | c # r \<Rightarrow>
          (c = 101 \<or> c = 69) \<and>
          (case r of
             [] \<Rightarrow> False
           | d # r' \<Rightarrow> if d = 43 \<or> d = 45 then decimalDigits r' else decimalDigits r))"

definition strUnsignedDecimalLiteral :: "jsstring \<Rightarrow> bool option" where
  "strUnsignedDecimalLiteral s =
     (if s = str ''Infinity'' then Some True
      else
        (let ip = takeWhile isDigit s;
             r1 = dropWhile isDigit s;
             dot = (r1 \<noteq> [] \<and> hd r1 = 46);
             fp = (if dot then takeWhile isDigit (tl r1) else []);
             r2 = (if dot then dropWhile isDigit (tl r1) else r1)
         in if (ip \<noteq> [] \<or> fp \<noteq> []) \<and> exponentPart r2
            then Some (list_ex (\<lambda>d. d \<noteq> 48) (ip @ fp))
            else None))"

definition nonDecimalIntegerLiteral :: "jsstring \<Rightarrow> bool option" where
  "nonDecimalIntegerLiteral s =
     (case s of
        z # x # ds \<Rightarrow>
          if z = 48 \<and> ds \<noteq> [] \<and>
             (((x = 98 \<or> x = 66) \<and> list_all (\<lambda>d. d = 48 \<or> d = 49) ds) \<or>
              ((x = 111 \<or> x = 79) \<and> list_all (\<lambda>d. 48 \<le> d \<and> d \<le> 55) ds) \<or>
              ((x = 120 \<or> x = 88) \<and> list_all isHexDigit ds))
          then Some (list_ex (\<lambda>d. d \<noteq> 48) ds)
          else None
      | _ \<Rightarrow> None)"

definition strNumericLiteral :: "jsstring \<Rightarrow> bool option" where
  "strNumericLiteral s =
     (case s of
        [] \<Rightarrow> Some False
      | c # r \<Rightarrow>
          if c = 43 \<or> c = 45 then strUnsignedDecimalLiteral r
          else (case nonDecimalIntegerLiteral s of
                  Some nz \<Rightarrow> Some nz
                | None \<Rightarrow> strUnsignedDecimalLiteral s))"

definition trim :: "jsstring \<Rightarrow> jsstring" where
  "trim s = rev (dropWhile isSpace (rev (dropWhile isSpace s)))"

definition Number_truthy :: "jsstring \<Rightarrow> bool" where
  "Number_truthy t \<longleftrightarrow> strNumericLiteral (trim t) = Some True"

subsection \<open>\<^verbatim>\<open>tokenize\<close>\<close>

definition tokenize :: "jsstring \<Rightarrow> jsstring list" where
  "tokenize text =
     (if text = [] then []
      else
        filter (\<lambda>t. t \<notin> set PERSIAN_STOP_WORDS)
          (filter (\<lambda>t. \<not> Number_truthy t)
            (filter (\<lambda>t. length t > 2)
              (split_on 32
                (collapse_ws
                  (map (\<lambda>c. if isZeroWidth c then 32 else c)
                    (map (\<lambda>c. if c \<in> set punctuation then 32 else c)
                      (toLowerCase text))))))))"

section \<open>Entity extractor\<close>

text \<open>
  The frequency table is a \<^verbatim>\<open>Map\<close>, which keeps its keys in the order of their
  first insertion: an association list, where \<^verbatim>\<open>set\<close> overwrites the value of a
  key in place and appends a new key at the end.
\<close>

fun map_set :: "('k \<times> 'v) list \<Rightarrow> 'k \<Rightarrow> 'v \<Rightarrow> ('k \<times> 'v) list" where
  "map_set [] k v = [(k, v)]"
| "map_set ((k', v') # m) k v =
     (if k' = k then (k, v) # m else (k', v') # map_set m k v)"

definition map_get :: "('k \<times> 'v) list \<Rightarrow> 'k \<Rightarrow> 'v option" where
  "map_get m k = map_of m k"

text \<open>\<^verbatim>\<open>tokens.forEach(t => freq.set(t, (freq.get(t) || 0) + 1))\<close>\<close>

definition count_token :: "jsstring \<Rightarrow> (jsstring \<times> nat) list \<Rightarrow> (jsstring \<times> nat) list" where
  "count_token t freq = map_set freq t ((case map_get freq t of None \<Rightarrow> 0 | Some n \<Rightarrow> n) + 1)"

definition frequencies :: "jsstring list \<Rightarrow> (jsstring \<times> nat) list" where
  "frequencies tokens = fold count_token tokens []"

text \<open>
  The rest of \<^verbatim>\<open>extractEntities\<close>, from the token list on. \<^verbatim>\<open>sort\<close> is stable,
  and the comparator \<^verbatim>\<open>b[1] - a[1]\<close> orders by descending frequency.
\<close>

definition top_entities :: "jsstring list \<Rightarrow> jsstring list" where
  "top_entities tokens =
     map fst
       (slice
         (sort_key (\<lambda>e. - int (snd e))
           (filter (\<lambda>e. snd e > 0) (frequencies tokens)))
         0 5)"

definition extractEntities :: "jsstring \<Rightarrow> jsstring list" where
  "extractEntities text = top_entities (tokenize text)"

section \<open>Data model\<close>

datatype LLMProvider = OpenAI | OpenRouter | Ollama

datatype EmbeddingProvider = EmbOpenAI | EmbLocal | EmbOpenRouter

record RagConfig =
  chunkSize :: int
  chunkOverlap :: int
  topK :: int

record AppSettings =
  provider :: LLMProvider
  openaiKey :: jsstring
  openrouterKey :: jsstring
  ollamaUrl :: jsstring
  modelName :: jsstring
  systemPrompt :: jsstring
  strictMode :: bool
  embeddingProvider :: EmbeddingProvider
  embeddingModel :: jsstring
  ragConfig :: RagConfig

datatype doc_status = StatusIndexing | StatusReady | StatusError

record Document =
  doc_id :: jsstring
  doc_title :: jsstring
  doc_content :: jsstring
  doc_createdAt :: int
  doc_status :: "doc_status option"

record TextChunk =
  chunk_id :: jsstring
  chunk_docId :: jsstring
  chunk_text :: jsstring
  chunk_vector :: "real list option"

datatype node_type = NodeDoc | NodeChunk | NodeEntity | NodeQuery

datatype link_type = Contains | Mentions | Related | Similar_to

record NodeData =
  data_text :: jsstring
  data_fullText :: jsstring

record GraphNode =
  node_id :: jsstring
  node_type :: node_type
  node_label :: jsstring
  node_data :: "NodeData option"
  node_val :: "int option"

record GraphLink =
  link_source :: jsstring
  link_target :: jsstring
  link_type :: link_type
  link_weight :: "real option"

record KnowledgeGraph =
  graph_nodes :: "GraphNode list"
  graph_links :: "GraphLink list"

record RetrievalContext =
  ctx_chunkId :: jsstring
  ctx_docId :: jsstring
  ctx_docTitle :: jsstring
  ctx_content :: jsstring
  ctx_score :: real
  ctx_relatedEntities :: "jsstring list"

definition DEFAULT_SETTINGS :: AppSettings where
  "DEFAULT_SETTINGS =
     \<lparr>provider = Ollama, openaiKey = [], openrouterKey = [],
      ollamaUrl = str ''http://localhost:11434'', modelName = [],
      systemPrompt = str ''You are Nexus, a sophisticated AI assistant.'',
      strictMode = False, embeddingProvider = EmbLocal,
      embeddingModel = str ''nomic-embed-text'',
      ragConfig = \<lparr>chunkSize = 300, chunkOverlap = 50, topK = 5\<rparr>\<rparr>"

section \<open>Embedding service\<close>

text \<open>
  \<^verbatim>\<open>fetchEmbedding\<close> is an HTTP call to the configured provider. Its outcome is
  not decided by the program, so the engine takes it as a parameter: a function from
  the text, the settings and the state of the outside world to either the error thrown
  or the vector returned, and the next state of the world.
\<close>

datatype error = Error (message: jsstring)

type_synonym 'w embedder =
  "jsstring \<Rightarrow> AppSettings \<Rightarrow> 'w \<Rightarrow> (error + real list) \<times> 'w"

section \<open>Similarity scorer\<close>

text \<open>
  One turn of the loop of \<^verbatim>\<open>cosineSimilarity\<close> at index \<open>i\<close>, on the
  accumulators \<^verbatim>\<open>dotProduct\<close>, \<^verbatim>\<open>magA\<close> and \<^verbatim>\<open>magB\<close>.
\<close>

definition cosine_step ::
  "real list \<Rightarrow> real list \<Rightarrow> nat \<Rightarrow> real \<times> real \<times> real \<Rightarrow> real \<times> real \<times> real" where
  "cosine_step vecA vecB i acc =
     (case acc of (dotProduct, magA, magB) \<Rightarrow>
        (dotProduct + vecA ! i * vecB ! i, magA + vecA ! i * vecA ! i, magB + vecB ! i * vecB ! i))"

text \<open>
  An absent vector (\<^verbatim>\<open>undefined\<close>) is \<open>None\<close>. The loop reads both vectors at
  the indices below \<^verbatim>\<open>vecA.length\<close>, after the lengths have been found equal.
\<close>

definition cosineSimilarity :: "real list option \<Rightarrow> real list option \<Rightarrow> real" where
  "cosineSimilarity vecA vecB =
     (case vecA of
        None \<Rightarrow> 0
      | Some a \<Rightarrow>
          (case vecB of
             None \<Rightarrow> 0
           | Some b \<Rightarrow>
               if length a \<noteq> length b then 0
               else
                 (case fold (cosine_step a b) [0..<length a] (0, 0, 0) of
                    (dotProduct, magA, magB) \<Rightarrow>
                      if sqrt magA = 0 \<or> sqrt magB = 0 then 0
                      else dotProduct / (sqrt magA * sqrt magB))))"

text \<open>The magnitude of a vector, as the specification speaks of it.\<close>

definition magnitude :: "real list \<Rightarrow> real" where
  "magnitude v = sqrt (\<Sum>x\<leftarrow>v. x * x)"

section \<open>Indexer\<close>

text \<open>The decimal digits of an index, as a template literal prints it.\<close>

fun decimal :: "nat \<Rightarrow> jsstring" where
  "decimal n = (if n < 10 then [48 + of_nat n] else decimal (n div 10) @ [48 + of_nat (n mod 10)])"

declare decimal.simps [simp del]

text \<open>
  The loop of \<^verbatim>\<open>processDocument\<close> over the chunk texts still to embed, at index
  \<open>idx\<close>, with the chunks pushed so far. An error thrown by an embedding call leaves
  the loop and the function at once.
\<close>

fun embedChunks ::
  "'w embedder \<Rightarrow> jsstring \<Rightarrow> AppSettings \<Rightarrow> jsstring list \<Rightarrow> nat \<Rightarrow> TextChunk list \<Rightarrow> 'w \<Rightarrow>
   (error + TextChunk list) \<times> 'w" where
  "embedChunks fetchEmbedding docId settings [] idx chunks w = (Inr chunks, w)"
| "embedChunks fetchEmbedding docId settings (text # rest) idx chunks w =
     (case fetchEmbedding text settings w of
        (Inl e, w') \<Rightarrow> (Inl e, w')
      | (Inr vector, w') \<Rightarrow>
          embedChunks fetchEmbedding docId settings rest (idx + 1)
            (chunks @
              [\<lparr>chunk_id = docId @ str ''_chk_'' @ decimal idx, chunk_docId = docId,
                chunk_text = text, chunk_vector = Some vector\<rparr>])
            w')"

text \<open>
  \<^verbatim>\<open>processDocument\<close>: the probe call on \<^verbatim>\<open>"test"\<close>, the chunker, the loop.
  The result is \<open>None\<close> when the chunker never returns.
\<close>

definition processDocument ::
  "'w embedder \<Rightarrow> Document \<Rightarrow> AppSettings \<Rightarrow> 'w \<Rightarrow> ((error + TextChunk list) \<times> 'w) option" where
  "processDocument fetchEmbedding doc settings w =
     (case fetchEmbedding (str ''test'') settings w of
        (Inl e, w') \<Rightarrow> Some (Inl e, w')
      | (Inr probe, w') \<Rightarrow>
          (case chunkText (doc_content doc) (chunkSize (ragConfig settings))
                  (chunkOverlap (ragConfig settings)) of
             None \<Rightarrow> None
           | Some textChunks \<Rightarrow>
               Some (embedChunks fetchEmbedding (doc_id doc) settings textChunks 0 [] w')))"

text \<open>
  The embedding calls a run makes on a list of texts, in order, from the world \<open>w\<close>:
  their outcomes up to and including the first failure.
\<close>

fun embedding_calls ::
  "'w embedder \<Rightarrow> AppSettings \<Rightarrow> jsstring list \<Rightarrow> 'w \<Rightarrow> (error + real list) list" where
  "embedding_calls fetchEmbedding settings [] w = []"
| "embedding_calls fetchEmbedding settings (text # rest) w =
     (case fetchEmbedding text settings w of
        (Inl e, w') \<Rightarrow> [Inl e]
      | (Inr vector, w') \<Rightarrow> Inr vector # embedding_calls fetchEmbedding settings rest w')"

section \<open>Graph builder\<close>

text \<open>The body of \<^verbatim>\<open>entities.forEach\<close>, on the nodes and links built so far.\<close>

definition add_entity ::
  "jsstring \<Rightarrow> jsstring \<Rightarrow> GraphNode list \<times> GraphLink list \<Rightarrow> GraphNode list \<times> GraphLink list" where
  "add_entity chunkId ent g =
     (case g of (nodes, links) \<Rightarrow>
        (let entId = str ''ent_'' @ ent;
             nodes' =
               (if find (\<lambda>n. node_id n = entId) nodes = None
                then nodes @
                  [\<lparr>node_id = entId, node_type = NodeEntity, node_label = ent,
                    node_data = None, node_val = Some 5\<rparr>]
                else nodes)
         in (nodes',
             links @
               [\<lparr>link_source = chunkId, link_target = entId, link_type = Mentions,
                 link_weight = None\<rparr>])))"

text \<open>The body of \<^verbatim>\<open>chunks.forEach\<close>.\<close>

definition add_chunk ::
  "TextChunk \<Rightarrow> GraphNode list \<times> GraphLink list \<Rightarrow> GraphNode list \<times> GraphLink list" where
  "add_chunk chunk g =
     (case g of (nodes, links) \<Rightarrow>
        fold (add_entity (chunk_id chunk)) (extractEntities (chunk_text chunk))
          (nodes @
             [\<lparr>node_id = chunk_id chunk, node_type = NodeChunk, node_label = str ''Part'',
               node_data =
                 Some \<lparr>data_text = take 50 (chunk_text chunk) @ str ''...'',
                       data_fullText = chunk_text chunk\<rparr>,
               node_val = Some 10\<rparr>],
           links @
             [\<lparr>link_source = chunk_docId chunk, link_target = chunk_id chunk,
               link_type = Contains, link_weight = None\<rparr>]))"

definition doc_node :: "Document \<Rightarrow> GraphNode" where
  "doc_node doc =
     \<lparr>node_id = doc_id doc, node_type = NodeDoc, node_label = doc_title doc,
      node_data = None, node_val = Some 20\<rparr>"

definition rebuildGraphFromChunks :: "Document list \<Rightarrow> TextChunk list \<Rightarrow> KnowledgeGraph" where
  "rebuildGraphFromChunks documents chunks =
     (case fold add_chunk chunks (fold (\<lambda>doc nodes. nodes @ [doc_node doc]) documents [], []) of
        (nodes, links) \<Rightarrow> \<lparr>graph_nodes = nodes, graph_links = links\<rparr>)"

section \<open>Retriever\<close>

text \<open>The label of a chunk whose document is gone.\<close>

definition unknown_document :: jsstring where
  "unknown_document =
     [0x0633, 0x0646, 0x062F, 0x0020, 0x0646, 0x0627, 0x0634, 0x0646, 0x0627, 0x0633]"

definition score_chunk :: "real list \<Rightarrow> TextChunk \<Rightarrow> TextChunk \<times> real" where
  "score_chunk queryVec chunk =
     (chunk,
      if chunk_vector chunk \<noteq> None then cosineSimilarity (Some queryVec) (chunk_vector chunk)
      else 0)"

definition retrieval_context :: "Document list \<Rightarrow> TextChunk \<times> real \<Rightarrow> RetrievalContext" where
  "retrieval_context documents item =
     \<lparr>ctx_chunkId = chunk_id (fst item), ctx_docId = chunk_docId (fst item),
      ctx_docTitle =
        (case find (\<lambda>d. doc_id d = chunk_docId (fst item)) documents of
           Some doc \<Rightarrow> doc_title doc
         | None \<Rightarrow> unknown_document),
      ctx_content = chunk_text (fst item), ctx_score = snd item,
      ctx_relatedEntities = extractEntities (chunk_text (fst item))\<rparr>"

text \<open>
  \<^verbatim>\<open>retrieveContext\<close>. The comparator \<^verbatim>\<open>b.score - a.score\<close> of the stable
  \<^verbatim>\<open>sort\<close> orders by descending score.
\<close>

definition retrieveContext ::
  "'w embedder \<Rightarrow> jsstring \<Rightarrow> TextChunk list \<Rightarrow> AppSettings \<Rightarrow> Document list \<Rightarrow> 'w \<Rightarrow>
   (error + RetrievalContext list) \<times> 'w" where
  "retrieveContext fetchEmbedding query chunks settings documents w =
     (if query = [] \<or> chunks = [] then (Inr [], w)
      else
        (case fetchEmbedding query settings w of
           (Inl e, w') \<Rightarrow> (Inl e, w')
         | (Inr queryVec, w') \<Rightarrow>
             (let scoredChunks = map (score_chunk queryVec) chunks;
                  topChunks =
                    slice
                      (sort_key (\<lambda>s. - snd s) (filter (\<lambda>s. snd s > 0.25) scoredChunks))
                      0 (topK (ragConfig settings))
              in (Inr (map (retrieval_context documents) topChunks), w'))))"

section \<open>The caller of the indexer\<close>

text \<open>
  \<^verbatim>\<open>handleAddDocument\<close> of the application. The services it calls besides the
  engine (reading a file, the database, the random identifier, the clock) are
  parameters, like the embedding call. The state holds what the handler reads and sets.
\<close>

datatype tab = CHAT | KNOWLEDGE | GRAPH | SETTINGS

record App =
  app_activeTab :: tab
  app_settings :: AppSettings
  app_documents :: "Document list"
  app_chunks :: "TextChunk list"
  app_graphData :: KnowledgeGraph
  app_isLoading :: bool
  app_error :: "jsstring option"

record ('f, 'w) Services =
  sv_fetchEmbedding :: "'w embedder"
  sv_processFile :: "'f \<Rightarrow> 'w \<Rightarrow> (error + jsstring \<times> jsstring) \<times> 'w"
  sv_addDocument :: "Document \<Rightarrow> 'w \<Rightarrow> error option \<times> 'w"
  sv_addChunks :: "TextChunk list \<Rightarrow> 'w \<Rightarrow> error option \<times> 'w"
  sv_randomUUID :: "'w \<Rightarrow> jsstring \<times> 'w"
  sv_now :: "'w \<Rightarrow> int \<times> 'w"

record 'f AddInput =
  in_title :: "jsstring option"
  in_content :: "jsstring option"
  in_file :: "'f option"

definition empty_content_message :: jsstring where
  "empty_content_message =
     [0x0645, 0x062D, 0x062A, 0x0648, 0x0627, 0x06CC, 0x0020, 0x0633, 0x0646, 0x062F, 0x0020,
      0x062E, 0x0627, 0x0644, 0x06CC, 0x0020, 0x0627, 0x0633, 0x062A, 0x002E]"

definition indexing_failed_message :: jsstring where
  "indexing_failed_message =
     [0x062E, 0x0637, 0x0627, 0x0020, 0x062F, 0x0631, 0x0020, 0x0627, 0x06CC, 0x0646, 0x062F,
      0x06A9, 0x0633, 0x0020, 0x06A9, 0x0631, 0x062F, 0x0646, 0x0020, 0x0633, 0x0646, 0x062F]"

text \<open>The \<^verbatim>\<open>catch\<close> and \<^verbatim>\<open>finally\<close> blocks of the indexing run.\<close>

definition indexing_failed :: "Document \<Rightarrow> error \<Rightarrow> App \<Rightarrow> App" where
  "indexing_failed newDoc e st =
     st\<lparr>app_error := Some (if message e = [] then indexing_failed_message else message e),
        app_documents :=
          map (\<lambda>d. if doc_id d = doc_id newDoc then newDoc\<lparr>doc_status := Some StatusError\<rparr> else d)
            (app_documents st),
        app_isLoading := False\<rparr>"

text \<open>
  The handler from the point where the new document exists: it enters the list as
  \<^verbatim>\<open>indexing\<close>, and the \<^verbatim>\<open>try\<close> block indexes and stores it. The lists
  \<^verbatim>\<open>documents\<close> and \<^verbatim>\<open>chunks\<close> of the \<^verbatim>\<open>try\<close> block are those of the
  state the handler was called in.
\<close>

definition handleAddDocument_index ::
  "('f, 'w) Services \<Rightarrow> Document \<Rightarrow> App \<Rightarrow> 'w \<Rightarrow> (App \<times> 'w) option" where
  "handleAddDocument_index sv newDoc st w =
     (let documents = app_documents st;
          chunks = app_chunks st;
          st1 = st\<lparr>app_documents := documents @ [newDoc], app_activeTab := KNOWLEDGE,
                   app_isLoading := True\<rparr>
      in case processDocument (sv_fetchEmbedding sv) newDoc (app_settings st) w of
           None \<Rightarrow> None
         | Some (Inl e, w1) \<Rightarrow> Some (indexing_failed newDoc e st1, w1)
         | Some (Inr newChunks, w1) \<Rightarrow>
             (let readyDoc = newDoc\<lparr>doc_status := Some StatusReady\<rparr>
              in case sv_addDocument sv readyDoc w1 of
                   (Some e, w2) \<Rightarrow> Some (indexing_failed newDoc e st1, w2)
                 | (None, w2) \<Rightarrow>
                     (case sv_addChunks sv newChunks w2 of
                        (Some e, w3) \<Rightarrow> Some (indexing_failed newDoc e st1, w3)
                      | (None, w3) \<Rightarrow>
                          Some
                            (st1\<lparr>app_documents :=
                                   map (\<lambda>d. if doc_id d = doc_id newDoc then readyDoc else d)
                                     (app_documents st1),
                                 app_chunks := chunks @ newChunks,
                                 app_graphData :=
                                   rebuildGraphFromChunks (documents @ [readyDoc])
                                     (chunks @ newChunks),
                                 app_isLoading := False\<rparr>,
                             w3))))"

definition handleAddDocument ::
  "('f, 'w) Services \<Rightarrow> 'f AddInput \<Rightarrow> App \<Rightarrow> 'w \<Rightarrow> (App \<times> 'w) option" where
  "handleAddDocument sv input st w =
     (let st0 = st\<lparr>app_error := None\<rparr>;
          title0 = (case in_title input of None \<Rightarrow> str ''Untitled''
                    | Some t \<Rightarrow> if t = [] then str ''Untitled'' else t);
          content0 = (case in_content input of None \<Rightarrow> [] | Some c \<Rightarrow> c);
          create =
            (\<lambda>docTitle docContent st' w'.
               if trim docContent = [] then
                 Some (st'\<lparr>app_error := Some empty_content_message, app_isLoading := False\<rparr>, w')
               else
                 (case sv_randomUUID sv w' of
                    (uuid, w1) \<Rightarrow>
                      (case sv_now sv w1 of
                         (now, w2) \<Rightarrow>
                           handleAddDocument_index sv
                             \<lparr>doc_id = uuid, doc_title = docTitle, doc_content = docContent,
                              doc_createdAt = now, doc_status = Some StatusIndexing\<rparr>
                             st' w2)))
      in case in_file input of
           None \<Rightarrow> create title0 content0 st0 w
         | Some file \<Rightarrow>
             (case sv_processFile sv file w of
                (Inl e, w') \<Rightarrow>
                  Some (st0\<lparr>app_isLoading := False, app_error := Some (message e)\<rparr>, w')
              | (Inr processed, w') \<Rightarrow>
                  create (fst processed) (snd processed) (st0\<lparr>app_isLoading := True\<rparr>) w'))"

section \<open>Notions of the specification\<close>

text \<open>The position of the first occurrence of \<open>x\<close> in \<open>xs\<close> (its length if there is none).\<close>

definition firstIndex :: "'a list \<Rightarrow> 'a \<Rightarrow> nat" where
  "firstIndex xs x = length (takeWhile (\<lambda>y. y \<noteq> x) xs)"

text \<open>
  The invariant of the counting loop of \<^verbatim>\<open>extractEntities\<close> after the tokens
  \<open>toks\<close>: the keys are the distinct tokens in the order of their first occurrence, each
  with the number of its occurrences.
\<close>

definition freq_inv :: "jsstring list \<Rightarrow> (jsstring \<times> nat) list \<Rightarrow> bool" where
  "freq_inv toks m \<longleftrightarrow>
     distinct (map fst m) \<and> set (map fst m) = set toks \<and>
     (\<forall>e \<in> set m. snd e = count_list toks (fst e)) \<and>
     sorted_wrt (\<lambda>a b. firstIndex toks a < firstIndex toks b) (map fst m)"

text \<open>
  The identifiers of the entity nodes that the chunks give rise to: \<^verbatim>\<open>ent_\<close>
  followed by an entity of a chunk's text.
\<close>

definition entity_ids :: "TextChunk list \<Rightarrow> jsstring set" where
  "entity_ids chunks =
     (\<Union>c \<in> set chunks. (\<lambda>ent. str ''ent_'' @ ent) ` set (extractEntities (chunk_text c)))"

text \<open>Every link starts and ends at a node of the list.\<close>

definition links_resolve :: "GraphNode list \<Rightarrow> GraphLink list \<Rightarrow> bool" where
  "links_resolve nodes links \<longleftrightarrow>
     (\<forall>l \<in> set links.
        link_source l \<in> node_id ` set nodes \<and> link_target l \<in> node_id ` set nodes)"

section \<open>Example data\<close>

text \<open>
  Two embedding services whose world has no state: one answers every text with the
  vector \<open>v\<close>, the other is unreachable.
\<close>

definition const_embedder :: "real list \<Rightarrow> unit embedder" where
  "const_embedder v = (\<lambda>text settings w. (Inr v, w))"

definition failing_embedder :: "unit embedder" where
  "failing_embedder = (\<lambda>text settings w. (Inl (Error (str ''unreachable'')), w))"

definition example_chunk :: "jsstring \<Rightarrow> real list option \<Rightarrow> TextChunk" where
  "example_chunk i v =
     \<lparr>chunk_id = i, chunk_docId = str ''d1'', chunk_text = str ''alpha beta gamma'',
      chunk_vector = v\<rparr>"

definition with_topK :: "int \<Rightarrow> AppSettings" where
  "with_topK k = DEFAULT_SETTINGS\<lparr>ragConfig := \<lparr>chunkSize = 300, chunkOverlap = 50, topK = k\<rparr>\<rparr>"

text \<open>
  An embedding service that answers its first \<open>n\<close> calls and fails from then on; the
  state of its world is the number of calls made so far.
\<close>

definition flaky_embedder :: "nat \<Rightarrow> nat embedder" where
  "flaky_embedder n =
     (\<lambda>text settings k.
        (if k < n then Inr [1, 0] else Inl (Error (str ''unreachable'')), Suc k))"

definition with_chunking :: "int \<Rightarrow> int \<Rightarrow> AppSettings" where
  "with_chunking sz overlap =
     DEFAULT_SETTINGS\<lparr>ragConfig := \<lparr>chunkSize = sz, chunkOverlap = overlap, topK = 5\<rparr>\<rparr>"

definition example_doc :: Document where
  "example_doc =
     \<lparr>doc_id = str ''doc-1'', doc_title = str ''Notes'',
      doc_content = str ''alpha beta gamma delta'', doc_createdAt = 0,
      doc_status = Some StatusIndexing\<rparr>"

definition example_services :: "nat \<Rightarrow> (unit, nat) Services" where
  "example_services n =
     \<lparr>sv_fetchEmbedding = flaky_embedder n,
      sv_processFile = (\<lambda>file w. (Inl (Error (str ''no file'')), w)),
      sv_addDocument = (\<lambda>doc w. (None, w)),
      sv_addChunks = (\<lambda>chunks w. (None, w)),
      sv_randomUUID = (\<lambda>w. (str ''doc-1'', w)),
      sv_now = (\<lambda>w. (0, w))\<rparr>"

definition example_app :: "AppSettings \<Rightarrow> App" where
  "example_app settings =
     \<lparr>app_activeTab = CHAT, app_settings = settings, app_documents = [], app_chunks = [],
      app_graphData = \<lparr>graph_nodes = [], graph_links = []\<rparr>, app_isLoading = False,
      app_error = None\<rparr>"

definition example_document :: "jsstring \<Rightarrow> Document" where
  "example_document i =
     \<lparr>doc_id = i, doc_title = str ''Notes'', doc_content = str ''foo bar foo baz'',
      doc_createdAt = 0, doc_status = Some StatusReady\<rparr>"

definition chunk_of :: "jsstring \<Rightarrow> jsstring \<Rightarrow> jsstring \<Rightarrow> TextChunk" where
  "chunk_of i d t = \<lparr>chunk_id = i, chunk_docId = d, chunk_text = t, chunk_vector = None\<rparr>"

section \<open>Properties of the chunker\<close>

lemma chunkLoop_returns:
  "overlap < sz \<Longrightarrow> \<exists>cs. chunkLoop words sz overlap i chunks = Some cs"
proof (induction "nat (int (length words) - i)" arbitrary: i chunks rule: less_induct)
  case less
  show ?case
  proof (cases "i < int (length words)")
    case False
    then show ?thesis by (subst chunkLoop.simps) simp
  next
    case inside: True
    show ?thesis
    proof (cases "i + sz \<ge> int (length words)")
      case True
      with inside show ?thesis by (subst chunkLoop.simps) (simp add: Let_def)
    next
      case False
      let ?i' = "i + (sz - overlap)"
      have "nat (int (length words) - ?i') < nat (int (length words) - i)"
        using inside less.prems by simp
      from less.hyps [OF this less.prems]
      have "\<And>chunks'. \<exists>cs. chunkLoop words sz overlap ?i' chunks' = Some cs" .
      with inside False show ?thesis by (subst chunkLoop.simps) (simp add: Let_def)
    qed
  qed
qed

text \<open>
  Claim C2, as the code runs it. On \<^verbatim>\<open>"a b c d e f"\<close> with size 4 and overlap 1
  the windows start at words 0 and 3. The second window \<^verbatim>\<open>"d e f"\<close> has 5
  characters, the guard \<^verbatim>\<open>chunk.length > 5\<close> drops it, and the result is the single
  chunk \<^verbatim>\<open>"a b c d"\<close>.
\<close>

theorem chunkText_example:
  "chunkText (str ''a b c d e f'') 4 1 = Some [str ''a b c d'']"
  by (simp add: chunkText_def chunkLoop.simps str_def isSpace_def slice_def)

text \<open>
  Claim C2, as the specification states it: the result would be the two chunks
  \<^verbatim>\<open>"a b c d"\<close> and \<^verbatim>\<open>"d e f"\<close>. The code does not return them.
\<close>

theorem chunkText_example_two_chunks_refuted:
  "chunkText (str ''a b c d e f'') 4 1 \<noteq> Some [str ''a b c d'', str ''d e f'']"
  by (simp add: chunkText_def chunkLoop.simps str_def isSpace_def slice_def)

text \<open>
  Claim C8: whenever \<open>size > overlap\<close>, \<^verbatim>\<open>chunkText\<close> returns, for every text. Each
  turn of the loop moves the window start forward by \<open>size - overlap > 0\<close> words, and
  the loop ends when the start passes the last word or a window reaches it.
\<close>

theorem chunkText_terminates:
  "overlap < sz \<Longrightarrow> \<exists>cs. chunkText text sz overlap = Some cs"
  unfolding chunkText_def by (rule chunkLoop_returns)

theorem chunkText_terminates_witness:
  "(1::int) < 2 \<and> (\<exists>cs. chunkText (str ''x y z'') 2 1 = Some cs)"
  using chunkText_terminates [of 1 2 "str ''x y z''"] by simp

section \<open>Properties of the similarity scorer\<close>

lemma fold_cosine_step:
  "fold (cosine_step a b) is (d, ma, mb) =
     (d + (\<Sum>i\<leftarrow>is. a ! i * b ! i), ma + (\<Sum>i\<leftarrow>is. a ! i * a ! i),
      mb + (\<Sum>i\<leftarrow>is. b ! i * b ! i))"
  by (induction "is" arbitrary: d ma mb) (simp_all add: cosine_step_def add.assoc)

lemma sum_squares_nth:
  "(\<Sum>i\<leftarrow>[0..<length v]. v ! i * v ! i) = (\<Sum>x\<leftarrow>v. x * (x::real))"
proof -
  have "map (\<lambda>i. v ! i * v ! i) [0..<length v] = map (\<lambda>x. x * x) (map ((!) v) [0..<length v])"
    by simp
  also have "\<dots> = map (\<lambda>x. x * x) v" by (simp only: map_nth)
  finally show ?thesis by simp
qed

text \<open>On vectors of one length the loop computes the dot product over the magnitudes.\<close>

lemma cosineSimilarity_Some:
  "length a = length b \<Longrightarrow>
   cosineSimilarity (Some a) (Some b) =
     (if magnitude a = 0 \<or> magnitude b = 0 then 0
      else (\<Sum>i\<leftarrow>[0..<length a]. a ! i * b ! i) / (magnitude a * magnitude b))"
  using sum_squares_nth [of a] sum_squares_nth [of b]
  by (simp add: cosineSimilarity_def fold_cosine_step magnitude_def)

text \<open>
  Claim C5: \<^verbatim>\<open>cosineSimilarity\<close> has no failing branch (its result is a number on
  every input), and the result is 0 when a vector is absent, when the lengths differ,
  and when a magnitude is exactly zero.
\<close>

theorem cosineSimilarity_zero_fallback:
  "cosineSimilarity None vecB = 0 \<and>
   cosineSimilarity vecA None = 0 \<and>
   (length a \<noteq> length b \<longrightarrow> cosineSimilarity (Some a) (Some b) = 0) \<and>
   (magnitude a = 0 \<or> magnitude b = 0 \<longrightarrow> cosineSimilarity (Some a) (Some b) = 0)"
proof (intro conjI impI)
  show "cosineSimilarity None vecB = 0" by (simp add: cosineSimilarity_def)
  show "cosineSimilarity vecA None = 0" by (simp add: cosineSimilarity_def split: option.split)
  show "cosineSimilarity (Some a) (Some b) = 0" if "length a \<noteq> length b"
    using that by (simp add: cosineSimilarity_def)
  show "cosineSimilarity (Some a) (Some b) = 0" if "magnitude a = 0 \<or> magnitude b = 0"
  proof (cases "length a = length b")
    case True
    with that show ?thesis by (simp add: cosineSimilarity_Some)
  next
    case False
    then show ?thesis by (simp add: cosineSimilarity_def)
  qed
qed

theorem cosineSimilarity_zero_fallback_witness:
  "length [1, 2 :: real] \<noteq> length [3 :: real] \<and>
   cosineSimilarity (Some [1, 2]) (Some [3]) = 0 \<and>
   magnitude [0, 0] = 0 \<and> cosineSimilarity (Some [0, 0]) (Some [3, 4]) = 0 \<and>
   cosineSimilarity None (Some [3, 4]) = 0 \<and> cosineSimilarity (Some [3, 4]) None = 0"
  using cosineSimilarity_zero_fallback [of "Some [3, 4]" "Some [3, 4]" "[1, 2]" "[3]"]
    cosineSimilarity_zero_fallback [of "Some [3, 4]" "Some [3, 4]" "[0, 0]" "[3, 4]"]
  by (simp add: magnitude_def)

text \<open>
  Claim C9: \<^verbatim>\<open>cosineSimilarity(a, b)\<close> equals \<^verbatim>\<open>cosineSimilarity(b, a)\<close>, for
  all vectors, present or absent, of equal or different lengths.
\<close>

theorem cosineSimilarity_symmetric:
  "cosineSimilarity vecA vecB = cosineSimilarity vecB vecA"
proof (cases vecA)
  case None
  then show ?thesis by (simp add: cosineSimilarity_def split: option.split)
next
  case a: (Some a)
  show ?thesis
  proof (cases vecB)
    case None
    with a show ?thesis by (simp add: cosineSimilarity_def)
  next
    case b: (Some b)
    show ?thesis
    proof (cases "length a = length b")
      case False
      with a b show ?thesis by (auto simp add: cosineSimilarity_def)
    next
      case True
      have "(\<Sum>i\<leftarrow>[0..<length a]. a ! i * b ! i) = (\<Sum>i\<leftarrow>[0..<length b]. b ! i * a ! i)"
        using True by (simp add: mult.commute)
      with True a b show ?thesis
        by (simp add: cosineSimilarity_Some mult.commute disj_commute)
    qed
  qed
qed

section \<open>Properties of the retriever\<close>

lemma slice_prefix: "slice xs 0 k = take (if k < 0 then nat (int (length xs) + k) else nat k) xs"
  by (auto simp: slice_def Let_def min_def max_def)

lemma slice_0_nonneg: "0 \<le> k \<Longrightarrow> slice xs 0 k = take (nat k) xs"
  by (simp add: slice_prefix)

lemma sorted_wrt_slice_0: "sorted_wrt R xs \<Longrightarrow> sorted_wrt R (slice xs 0 k)"
  by (simp add: slice_prefix sorted_wrt_take)

lemma set_slice_0: "set (slice xs 0 k) \<subseteq> set xs"
  by (simp add: slice_prefix set_take_subset)

lemma sorted_desc_sort_key:
  fixes f :: "'a \<Rightarrow> real"
  shows "sorted_wrt (\<lambda>x y. f x \<ge> f y) (sort_key (\<lambda>s. - f s) xs)"
proof -
  have "sorted (map (\<lambda>s. - f s) (sort_key (\<lambda>s. - f s) xs))" by (rule sorted_sort_key)
  then show ?thesis by (simp add: sorted_map)
qed

text \<open>The scores of the example chunks against the query vector \<open>[1, 0]\<close>.\<close>

lemma sqrt_25: "sqrt 25 = 5"
  using real_sqrt_abs [of 5] by simp

lemma cosineSimilarity_parallel: "cosineSimilarity (Some [1, 0]) (Some [1, 0]) = 1"
  by (simp add: cosineSimilarity_def cosine_step_def upt_rec)

lemma cosineSimilarity_oblique: "cosineSimilarity (Some [1, 0]) (Some [3, 4]) = 3 / 5"
  by (simp add: cosineSimilarity_def cosine_step_def upt_rec sqrt_25)

lemma cosineSimilarity_orthogonal: "cosineSimilarity (Some [1, 0]) (Some [0, 1]) = 0"
  by (simp add: cosineSimilarity_def cosine_step_def upt_rec)

lemma retrieveContext_example:
  "retrieveContext (const_embedder [1, 0]) (str ''q'')
      [example_chunk (str ''c1'') (Some [3, 4]), example_chunk (str ''c2'') None,
       example_chunk (str ''c3'') (Some [0, 1]), example_chunk (str ''c4'') (Some [1, 0])]
      (with_topK 5) [] () =
    (Inr (map (retrieval_context [])
       [(example_chunk (str ''c4'') (Some [1, 0]), 1), (example_chunk (str ''c1'') (Some [3, 4]), 3 / 5)]), ())"
  by (simp add: retrieveContext_def const_embedder_def str_def score_chunk_def example_chunk_def
      cosineSimilarity_parallel cosineSimilarity_oblique cosineSimilarity_orthogonal with_topK_def DEFAULT_SETTINGS_def slice_def)

text \<open>
  Claim C1, as the code has it: whenever \<^verbatim>\<open>retrieveContext\<close> returns, the scores of
  the result descend (each is at least the next), no score is 0.25 or less, and the
  result has at most \<^verbatim>\<open>topK\<close> items when \<^verbatim>\<open>topK\<close> is not negative.
\<close>

theorem retrieveContext_ordering:
  assumes "retrieveContext fetchEmbedding query chunks settings documents w = (Inr result, w')"
  shows "sorted_wrt (\<lambda>x y. x \<ge> y) (map ctx_score result) \<and>
         (0 \<le> topK (ragConfig settings) \<longrightarrow> int (length result) \<le> topK (ragConfig settings)) \<and>
         (\<forall>c \<in> set result. ctx_score c > 0.25)"
proof (cases "query = [] \<or> chunks = []")
  case True
  with assms have "result = []" by (simp add: retrieveContext_def)
  then show ?thesis by simp
next
  case False
  obtain r w1 where fe: "fetchEmbedding query settings w = (r, w1)" by (cases "fetchEmbedding query settings w")
  with False assms obtain queryVec where r: "r = Inr queryVec"
    by (cases r) (auto simp: retrieveContext_def)
  define kept where "kept = filter (\<lambda>s. snd s > 0.25) (map (score_chunk queryVec) chunks)"
  define top where "top = slice (sort_key (\<lambda>s. - snd s) kept) 0 (topK (ragConfig settings))"
  have result: "result = map (retrieval_context documents) top"
    using assms False fe r by (simp add: retrieveContext_def Let_def top_def kept_def)
  have score: "map ctx_score result = map snd top"
    by (simp add: result retrieval_context_def)
  have "sorted_wrt (\<lambda>x y. snd x \<ge> snd y) top"
    unfolding top_def by (intro sorted_wrt_slice_0 sorted_desc_sort_key)
  then have 1: "sorted_wrt (\<lambda>x y. x \<ge> y) (map ctx_score result)"
    by (simp add: score sorted_wrt_map)
  have 2: "int (length result) \<le> topK (ragConfig settings)" if "0 \<le> topK (ragConfig settings)"
    using that by (simp add: result top_def slice_0_nonneg)
  have "set top \<subseteq> set kept"
    unfolding top_def using set_slice_0 [of "sort_key (\<lambda>s. - snd s) kept"] by simp
  then have "\<forall>s \<in> set top. snd s > 0.25" by (auto simp: kept_def)
  then have 3: "\<forall>c \<in> set result. ctx_score c > 0.25"
    by (simp add: result retrieval_context_def)
  from 1 2 3 show ?thesis by blast
qed

theorem retrieveContext_ordering_witness:
  "retrieveContext (const_embedder [1, 0]) (str ''q'')
      [example_chunk (str ''c1'') (Some [3, 4]), example_chunk (str ''c2'') None,
       example_chunk (str ''c3'') (Some [0, 1]), example_chunk (str ''c4'') (Some [1, 0])]
      (with_topK 5) [] () =
    (Inr (map (retrieval_context [])
       [(example_chunk (str ''c4'') (Some [1, 0]), 1), (example_chunk (str ''c1'') (Some [3, 4]), 3 / 5)]), ()) \<and>
   map ctx_score (map (retrieval_context [])
       [(example_chunk (str ''c4'') (Some [1, 0]), 1), (example_chunk (str ''c1'') (Some [3, 4]), 3 / 5)]) = [1, 3 / 5] \<and>
   sorted_wrt (\<lambda>x y. x \<ge> y) [1, 3 / 5 :: real] \<and> (0::int) \<le> topK (ragConfig (with_topK 5)) \<and>
   (2::int) \<le> topK (ragConfig (with_topK 5))"
  using retrieveContext_ordering [OF retrieveContext_example] retrieveContext_example
  by (simp add: retrieval_context_def with_topK_def DEFAULT_SETTINGS_def)

text \<open>
  Claim C1, as the specification states it, fails twice. Two chunks with the same vector
  score the same and both come back, so the scores do not descend strictly. And
  \<^verbatim>\<open>slice(0, -1)\<close> drops the last item only, so with \<^verbatim>\<open>topK = -1\<close> one
  item comes back, more than \<^verbatim>\<open>topK\<close>.
\<close>

theorem retrieveContext_strict_or_negative_topK_refuted:
  "fst (retrieveContext (const_embedder [1, 0]) (str ''q'')
      [example_chunk (str ''c1'') (Some [1, 0]), example_chunk (str ''c2'') (Some [1, 0])]
      (with_topK 5) [] ()) =
    Inr (map (retrieval_context [])
       [(example_chunk (str ''c1'') (Some [1, 0]), 1), (example_chunk (str ''c2'') (Some [1, 0]), 1)]) \<and>
   \<not> sorted_wrt (\<lambda>x y. x > y) (map ctx_score (map (retrieval_context [])
       [(example_chunk (str ''c1'') (Some [1, 0]), 1), (example_chunk (str ''c2'') (Some [1, 0]), 1)])) \<and>
   fst (retrieveContext (const_embedder [1, 0]) (str ''q'')
      [example_chunk (str ''c1'') (Some [1, 0]), example_chunk (str ''c2'') (Some [1, 0])]
      (with_topK (- 1)) [] ()) =
    Inr (map (retrieval_context []) [(example_chunk (str ''c1'') (Some [1, 0]), 1)]) \<and>
   \<not> int (length (map (retrieval_context []) [(example_chunk (str ''c1'') (Some [1, 0]), 1)]))
       \<le> topK (ragConfig (with_topK (- 1)))"
  by (simp add: retrieveContext_def const_embedder_def str_def score_chunk_def example_chunk_def
      cosineSimilarity_parallel with_topK_def DEFAULT_SETTINGS_def slice_def retrieval_context_def)

text \<open>
  Claim C4: with an empty query or an empty chunk list \<^verbatim>\<open>retrieveContext\<close> returns
  the empty sequence, whatever the embedding service would do, and leaves the world as it
  was: no embedding call is made.
\<close>

theorem retrieveContext_emptiness:
  "query = [] \<or> chunks = [] \<Longrightarrow>
   retrieveContext fetchEmbedding query chunks settings documents w = (Inr [], w)"
  by (simp add: retrieveContext_def)

theorem retrieveContext_emptiness_witness:
  "retrieveContext failing_embedder [] [example_chunk (str ''c1'') (Some [1, 0])] DEFAULT_SETTINGS [] () = (Inr [], ()) \<and>
   retrieveContext failing_embedder (str ''q'') [] DEFAULT_SETTINGS [] () = (Inr [], ()) \<and>
   fst (retrieveContext failing_embedder (str ''q'') [example_chunk (str ''c1'') (Some [1, 0])] DEFAULT_SETTINGS [] ())
     = Inl (Error (str ''unreachable''))"
  using retrieveContext_emptiness [of "[]" "[example_chunk (str ''c1'') (Some [1, 0])]" failing_embedder DEFAULT_SETTINGS "[]" "()"]
    retrieveContext_emptiness [of "str ''q''" "[]" failing_embedder DEFAULT_SETTINGS "[]" "()"]
  by (simp add: retrieveContext_def failing_embedder_def str_def)

section \<open>Properties of the entity extractor\<close>

lemma firstIndex_less: "x \<in> set xs \<Longrightarrow> firstIndex xs x < length xs"
  by (induction xs) (auto simp: firstIndex_def)

lemma firstIndex_append_old: "x \<in> set xs \<Longrightarrow> firstIndex (xs @ ys) x = firstIndex xs x"
  by (simp add: firstIndex_def takeWhile_append1)

lemma firstIndex_append_new: "x \<notin> set xs \<Longrightarrow> firstIndex (xs @ [x]) x = length xs"
  by (induction xs) (auto simp: firstIndex_def)

lemma map_fst_map_set:
  "map fst (map_set m k v) = (if k \<in> set (map fst m) then map fst m else map fst m @ [k])"
  by (induction m k v rule: map_set.induct) auto

lemma set_map_set:
  "distinct (map fst m) \<Longrightarrow> e \<in> set (map_set m k v) \<Longrightarrow> e = (k, v) \<or> (e \<in> set m \<and> fst e \<noteq> k)"
  by (induction m k v rule: map_set.induct) (auto split: if_splits)

lemma count_token_inv:
  assumes "freq_inv toks m"
  shows "freq_inv (toks @ [t]) (count_token t m)"
proof -
  let ?v = "(case map_get m t of None \<Rightarrow> 0 | Some n \<Rightarrow> n) + 1"
  let ?m' = "map_set m t ?v"
  from assms have d: "distinct (map fst m)" and s: "set (map fst m) = set toks"
    and c: "\<forall>e \<in> set m. snd e = count_list toks (fst e)"
    and o: "sorted_wrt (\<lambda>a b. firstIndex toks a < firstIndex toks b) (map fst m)"
    by (simp_all add: freq_inv_def)
  have keys: "map fst ?m' = (if t \<in> set toks then map fst m else map fst m @ [t])"
    using s by (simp add: map_fst_map_set)
  have v: "?v = count_list (toks @ [t]) t"
  proof (cases "map_of m t")
    case None
    then have "t \<notin> set toks" using s by (simp add: map_of_eq_None_iff)
    with None show ?thesis by (simp add: map_get_def)
  next
    case (Some n)
    then have "(t, n) \<in> set m" by (rule map_of_SomeD)
    with c have "n = count_list toks t" by auto
    with Some show ?thesis by (simp add: map_get_def)
  qed
  have 1: "distinct (map fst ?m')" using d s keys by auto
  have 2: "set (map fst ?m') = set (toks @ [t])" using s keys by auto
  have 3: "\<forall>e \<in> set ?m'. snd e = count_list (toks @ [t]) (fst e)"
  proof
    fix e assume "e \<in> set ?m'"
    from set_map_set [OF d this] show "snd e = count_list (toks @ [t]) (fst e)"
      using v c by auto
  qed
  have old: "sorted_wrt (\<lambda>a b. firstIndex (toks @ [t]) a < firstIndex (toks @ [t]) b) (map fst m)"
    using o s by (rule_tac sorted_wrt_mono_rel [OF _ o]) (simp add: firstIndex_append_old)
  have 4: "sorted_wrt (\<lambda>a b. firstIndex (toks @ [t]) a < firstIndex (toks @ [t]) b) (map fst ?m')"
  proof (cases "t \<in> set toks")
    case True
    with keys old show ?thesis by simp
  next
    case False
    have "\<forall>x \<in> set (map fst m). firstIndex (toks @ [t]) x < firstIndex (toks @ [t]) t"
      using s False by (simp add: firstIndex_append_old firstIndex_append_new firstIndex_less)
    with False keys old show ?thesis by (simp add: sorted_wrt_append)
  qed
  from 1 2 3 4 show ?thesis unfolding freq_inv_def count_token_def by blast
qed

lemma frequencies_inv: "freq_inv toks (frequencies toks)"
proof (induction toks rule: rev_induct)
  case Nil
  show ?case by (simp add: freq_inv_def frequencies_def)
next
  case (snoc t toks)
  then show ?case using count_token_inv [of toks "frequencies toks" t]
    by (simp add: frequencies_def)
qed

lemma sorted_wrt_classes:
  "(\<And>k. sorted_wrt R (filter (\<lambda>x. key x = k) xs)) \<Longrightarrow>
   sorted_wrt (\<lambda>a b. key a = key b \<longrightarrow> R a b) xs"
proof (induction xs)
  case Nil
  show ?case by simp
next
  case (Cons x xs)
  have "sorted_wrt R (filter (\<lambda>y. key y = k) xs)" for k
    using Cons.prems [of k] by (cases "key x = k") simp_all
  then have tl: "sorted_wrt (\<lambda>a b. key a = key b \<longrightarrow> R a b) xs" by (rule Cons.IH)
  have "\<forall>y \<in> set xs. key x = key y \<longrightarrow> R x y"
    using Cons.prems [of "key x"] by auto
  with tl show ?case by simp
qed

lemma sort_key_stable_wrt:
  fixes key :: "'a \<Rightarrow> 'k::linorder"
  assumes "sorted_wrt R xs"
  shows "sorted_wrt (\<lambda>a b. key a = key b \<longrightarrow> R a b) (sort_key key xs)"
proof (rule sorted_wrt_classes)
  fix k
  have "filter (\<lambda>x. key x = k) (sort_key key xs) = filter (\<lambda>x. key x = k) xs"
    by (rule sort_key_stable)
  with assms show "sorted_wrt R (filter (\<lambda>x. key x = k) (sort_key key xs))"
    by (simp add: sorted_wrt_filter)
qed

lemma top_entities_order:
  "length (top_entities toks) \<le> 5 \<and> distinct (top_entities toks) \<and>
   set (top_entities toks) \<subseteq> set toks \<and>
   sorted_wrt (\<lambda>a b. count_list toks a \<ge> count_list toks b) (top_entities toks) \<and>
   sorted_wrt (\<lambda>a b. count_list toks a = count_list toks b \<longrightarrow>
                 firstIndex toks a < firstIndex toks b) (top_entities toks)"
proof -
  define F where "F = filter (\<lambda>e. snd e > 0) (frequencies toks)"
  define S where "S = sort_key (\<lambda>e. - int (snd e)) F"
  have top: "top_entities toks = map fst (take 5 S)"
    by (simp add: top_entities_def slice_prefix S_def F_def)
  have inv: "freq_inv toks (frequencies toks)" by (rule frequencies_inv)
  have dF: "distinct (map fst F)" using inv by (simp add: freq_inv_def F_def distinct_map_filter)
  have cF: "\<forall>e \<in> set F. snd e = count_list toks (fst e)" using inv by (simp add: freq_inv_def F_def)
  have kF: "fst ` set F \<subseteq> set toks" using inv by (auto simp add: freq_inv_def F_def)
  have oF: "sorted_wrt (\<lambda>a b. firstIndex toks (fst a) < firstIndex toks (fst b)) F"
    using inv by (simp add: freq_inv_def F_def sorted_wrt_filter sorted_wrt_map)
  have setS: "set S = set F" by (simp add: S_def)
  have dS: "distinct (map fst S)" using dF by (simp add: S_def distinct_map)
  have 1: "length (top_entities toks) \<le> 5" by (simp add: top)
  have 2: "distinct (top_entities toks)"
    using dS distinct_take [of "map fst S" 5] by (simp add: top take_map)
  have sub: "set (take 5 S) \<subseteq> set F" using set_take_subset [of 5 S] setS by simp
  have 3: "set (top_entities toks) \<subseteq> set toks" using sub kF by (auto simp: top)
  have cS: "\<forall>e \<in> set (take 5 S). snd e = count_list toks (fst e)" using sub cF by blast
  have "sorted (map (\<lambda>e. - int (snd e)) S)" unfolding S_def by (rule sorted_sort_key)
  then have "sorted_wrt (\<lambda>a b. snd a \<ge> snd b) (take 5 S)"
    by (simp add: sorted_map sorted_wrt_take)
  then have "sorted_wrt (\<lambda>a b. count_list toks (fst a) \<ge> count_list toks (fst b)) (take 5 S)"
    by (rule sorted_wrt_mono_rel [rotated]) (use cS in auto)
  then have 4: "sorted_wrt (\<lambda>a b. count_list toks a \<ge> count_list toks b) (top_entities toks)"
    by (simp add: top sorted_wrt_map)
  have "sorted_wrt (\<lambda>a b. - int (snd a) = - int (snd b) \<longrightarrow>
          firstIndex toks (fst a) < firstIndex toks (fst b)) S"
    unfolding S_def using oF by (rule sort_key_stable_wrt)
  then have "sorted_wrt (\<lambda>a b. - int (snd a) = - int (snd b) \<longrightarrow>
          firstIndex toks (fst a) < firstIndex toks (fst b)) (take 5 S)"
    by (rule sorted_wrt_take)
  then have "sorted_wrt (\<lambda>a b. count_list toks (fst a) = count_list toks (fst b) \<longrightarrow>
          firstIndex toks (fst a) < firstIndex toks (fst b)) (take 5 S)"
    by (rule sorted_wrt_mono_rel [rotated]) (use cS in auto)
  then have 5: "sorted_wrt (\<lambda>a b. count_list toks a = count_list toks b \<longrightarrow>
                 firstIndex toks a < firstIndex toks b) (top_entities toks)"
    by (simp add: top sorted_wrt_map)
  from 1 2 3 4 5 show ?thesis by blast
qed

text \<open>
  Claim C10: \<^verbatim>\<open>extractEntities\<close> returns at most 5 tokens, pairwise distinct, in
  descending order of frequency, and of two returned tokens with the same frequency the
  one that occurs first in the token list comes first.
\<close>

theorem extractEntities_order:
  "length (extractEntities text) \<le> 5 \<and> distinct (extractEntities text) \<and>
   set (extractEntities text) \<subseteq> set (tokenize text) \<and>
   sorted_wrt (\<lambda>a b. count_list (tokenize text) a \<ge> count_list (tokenize text) b)
     (extractEntities text) \<and>
   sorted_wrt (\<lambda>a b. count_list (tokenize text) a = count_list (tokenize text) b \<longrightarrow>
                 firstIndex (tokenize text) a < firstIndex (tokenize text) b)
     (extractEntities text)"
  using top_entities_order [of "tokenize text"] by (simp add: extractEntities_def)

lemma tokenize_example: "tokenize (str ''foo bar bar foo baz'') = [str ''foo'', str ''bar'', str ''bar'', str ''foo'', str ''baz'']"
  by code_simp
lemma extractEntities_example: "extractEntities (str ''foo bar bar foo baz'') = [str ''foo'', str ''bar'', str ''baz'']"
  by code_simp

theorem extractEntities_order_witness:
  "extractEntities (str ''foo bar bar foo baz'') = [str ''foo'', str ''bar'', str ''baz''] \<and>
   count_list (tokenize (str ''foo bar bar foo baz'')) (str ''foo'') =
     count_list (tokenize (str ''foo bar bar foo baz'')) (str ''bar'') \<and>
   firstIndex (tokenize (str ''foo bar bar foo baz'')) (str ''foo'') <
     firstIndex (tokenize (str ''foo bar bar foo baz'')) (str ''bar'')"
proof -
  have c: "count_list (tokenize (str ''foo bar bar foo baz'')) (str ''foo'') =
     count_list (tokenize (str ''foo bar bar foo baz'')) (str ''bar'')"
    unfolding tokenize_example by (simp add: str_def)
  from extractEntities_order [of "str ''foo bar bar foo baz''"]
  have "sorted_wrt (\<lambda>a b. count_list (tokenize (str ''foo bar bar foo baz'')) a =
              count_list (tokenize (str ''foo bar bar foo baz'')) b \<longrightarrow>
              firstIndex (tokenize (str ''foo bar bar foo baz'')) a <
              firstIndex (tokenize (str ''foo bar bar foo baz'')) b)
          [str ''foo'', str ''bar'', str ''baz'']"
    unfolding extractEntities_example by blast
  with c show ?thesis by (simp add: extractEntities_example)
qed

section \<open>Properties of the tokenizer\<close>

text \<open>
  Claim C7 at the token \<^verbatim>\<open>000\<close>: \<^verbatim>\<open>Number("000")\<close> is 0, which is falsy
  like \<^verbatim>\<open>NaN\<close>, so the filter \<^verbatim>\<open>!Number(t)\<close> keeps the purely numeric token,
  while it drops \<^verbatim>\<open>120\<close>.
\<close>

theorem tokenize_keeps_zero_numeral:
  "tokenize (str ''call 000 now'') = [str ''call'', str ''000'', str ''now''] \<and>
   tokenize (str ''call 120 now'') = [str ''call'', str ''now'']"
  by code_simp

section \<open>Properties of the indexer and its caller\<close>

lemma embedChunks_propagates:
  "Inl e \<in> set (embedding_calls fetchEmbedding settings texts w) \<Longrightarrow>
   \<exists>w'. embedChunks fetchEmbedding docId settings texts idx chunks w = (Inl e, w')"
proof (induction texts arbitrary: idx chunks w)
  case Nil
  then show ?case by simp
next
  case (Cons t rest)
  obtain r w1 where call: "fetchEmbedding t settings w = (r, w1)"
    by (cases "fetchEmbedding t settings w")
  show ?case
  proof (cases r)
    case (Inl e')
    with call Cons.prems show ?thesis by simp
  next
    case (Inr vector)
    with call Cons.prems have "Inl e \<in> set (embedding_calls fetchEmbedding settings rest w1)"
      by simp
    from Cons.IH [OF this] call Inr show ?thesis by simp
  qed
qed

lemma processDocument_probe_fails:
  "fst (fetchEmbedding (str ''test'') settings w) = Inl e \<Longrightarrow>
   \<exists>w'. processDocument fetchEmbedding doc settings w = Some (Inl e, w')"
  by (cases "fetchEmbedding (str ''test'') settings w") (simp add: processDocument_def)

lemma processDocument_call_fails:
  assumes "chunkText (doc_content doc) (chunkSize (ragConfig settings))
             (chunkOverlap (ragConfig settings)) = Some textChunks"
    and "Inl e \<in> set (embedding_calls fetchEmbedding settings (str ''test'' # textChunks) w)"
  shows "\<exists>w'. processDocument fetchEmbedding doc settings w = Some (Inl e, w')"
proof -
  obtain r w1 where call: "fetchEmbedding (str ''test'') settings w = (r, w1)"
    by (cases "fetchEmbedding (str ''test'') settings w")
  show ?thesis
  proof (cases r)
    case (Inl e')
    with call assms(2) show ?thesis by (simp add: processDocument_def)
  next
    case (Inr probe)
    with call assms(2) have "Inl e \<in> set (embedding_calls fetchEmbedding settings textChunks w1)"
      by simp
    from embedChunks_propagates [OF this, of "doc_id doc" 0 "[]"] call Inr assms(1)
    show ?thesis by (auto simp add: processDocument_def)
  qed
qed

lemma handleAddDocument_index_failed:
  assumes "processDocument (sv_fetchEmbedding sv) newDoc (app_settings st) w = Some (Inl e, w')"
  shows "\<exists>st'. handleAddDocument_index sv newDoc st w = Some (st', w') \<and>
           newDoc\<lparr>doc_status := Some StatusError\<rparr> \<in> set (app_documents st') \<and>
           (\<forall>d \<in> set (app_documents st'). doc_id d = doc_id newDoc \<longrightarrow> doc_status d = Some StatusError) \<and>
           app_chunks st' = app_chunks st"
  using assms by (auto simp add: handleAddDocument_index_def indexing_failed_def Let_def)

text \<open>
  Claim C3: a failing embedding call ends \<^verbatim>\<open>processDocument\<close> with that error and
  no chunk list, be it the probe call (first part) or any call the run makes on the
  probe and the chunk texts (second part); and when \<^verbatim>\<open>processDocument\<close> fails, the
  handler returns with the new document in the list under the status
  \<^verbatim>\<open>error\<close> and with the chunk list unchanged (third part).
\<close>

theorem processDocument_error_propagates:
  "(fst (fetchEmbedding (str ''test'') settings w) = Inl e \<longrightarrow>
      (\<exists>w'. processDocument fetchEmbedding doc settings w = Some (Inl e, w'))) \<and>
   (chunkText (doc_content doc) (chunkSize (ragConfig settings))
        (chunkOverlap (ragConfig settings)) = Some textChunks \<and>
    Inl e \<in> set (embedding_calls fetchEmbedding settings (str ''test'' # textChunks) w) \<longrightarrow>
      (\<exists>w'. processDocument fetchEmbedding doc settings w = Some (Inl e, w'))) \<and>
   (processDocument (sv_fetchEmbedding sv) newDoc (app_settings st) w0 = Some (Inl e, w1) \<longrightarrow>
      (\<exists>st'. handleAddDocument_index sv newDoc st w0 = Some (st', w1) \<and>
         newDoc\<lparr>doc_status := Some StatusError\<rparr> \<in> set (app_documents st') \<and>
         (\<forall>d \<in> set (app_documents st').
            doc_id d = doc_id newDoc \<longrightarrow> doc_status d = Some StatusError) \<and>
         app_chunks st' = app_chunks st))"
  using processDocument_probe_fails [of fetchEmbedding settings w e doc]
    processDocument_call_fails [of doc settings textChunks e fetchEmbedding w]
    handleAddDocument_index_failed [of sv newDoc st w0 e w1]
  by blast

lemma chunkText_example_doc:
  "chunkText (doc_content example_doc) (chunkSize (ragConfig (with_chunking 2 1)))
     (chunkOverlap (ragConfig (with_chunking 2 1))) =
   Some [str ''alpha beta'', str ''beta gamma'', str ''gamma delta'']"
  by (simp add: example_doc_def with_chunking_def DEFAULT_SETTINGS_def chunkText_def
      chunkLoop.simps str_def isSpace_def slice_def)

lemma embedding_calls_example:
  "embedding_calls (flaky_embedder 2) (with_chunking 2 1)
     (str ''test'' # [str ''alpha beta'', str ''beta gamma'', str ''gamma delta'']) 0 =
   [Inr [1, 0], Inr [1, 0], Inl (Error (str ''unreachable''))]"
  by (simp add: flaky_embedder_def)

lemma processDocument_example:
  "processDocument (flaky_embedder 2) example_doc (with_chunking 2 1) 0 =
   Some (Inl (Error (str ''unreachable'')), 3)"
  unfolding processDocument_def chunkText_example_doc
  by (simp add: flaky_embedder_def example_doc_def numeral_3_eq_3)

theorem processDocument_error_propagates_witness:
  "fst (flaky_embedder 0 (str ''test'') (with_chunking 2 1) 0) = Inl (Error (str ''unreachable'')) \<and>
   processDocument (flaky_embedder 0) example_doc (with_chunking 2 1) 0 =
     Some (Inl (Error (str ''unreachable'')), 1) \<and>
   Inl (Error (str ''unreachable'')) \<in>
     set (embedding_calls (flaky_embedder 2) (with_chunking 2 1)
       (str ''test'' # [str ''alpha beta'', str ''beta gamma'', str ''gamma delta'']) 0) \<and>
   processDocument (flaky_embedder 2) example_doc (with_chunking 2 1) 0 =
     Some (Inl (Error (str ''unreachable'')), 3) \<and>
   map_option (\<lambda>r. map doc_status (app_documents (fst r)))
     (handleAddDocument_index (example_services 2) example_doc
        (example_app (with_chunking 2 1)) 0) = Some [Some StatusError]"
proof -
  have sv: "sv_fetchEmbedding (example_services 2) = flaky_embedder 2"
    by (simp add: example_services_def)
  have st: "app_settings (example_app (with_chunking 2 1)) = with_chunking 2 1"
    by (simp add: example_app_def)
  have run: "processDocument (sv_fetchEmbedding (example_services 2)) example_doc
      (app_settings (example_app (with_chunking 2 1))) 0 =
      Some (Inl (Error (str ''unreachable'')), 3)"
    by (simp only: sv st processDocument_example)
  have probe: "processDocument (flaky_embedder 0) example_doc (with_chunking 2 1) 0 =
     Some (Inl (Error (str ''unreachable'')), 1)"
    by (simp add: processDocument_def flaky_embedder_def)
  from processDocument_error_propagates
    [of "flaky_embedder 2" "with_chunking 2 1" 0 "Error (str ''unreachable'')" example_doc
      "[str ''alpha beta'', str ''beta gamma'', str ''gamma delta'']"
      "example_services 2" example_doc "example_app (with_chunking 2 1)" 0 3]
    run chunkText_example_doc embedding_calls_example
  obtain st' where "handleAddDocument_index (example_services 2) example_doc
        (example_app (with_chunking 2 1)) 0 = Some (st', 3)"
    and "example_doc\<lparr>doc_status := Some StatusError\<rparr> \<in> set (app_documents st')"
    by auto
  have "map_option (\<lambda>r. map doc_status (app_documents (fst r)))
     (handleAddDocument_index (example_services 2) example_doc
        (example_app (with_chunking 2 1)) 0) = Some [Some StatusError]"
    using run by (simp add: handleAddDocument_index_def indexing_failed_def Let_def example_app_def)
  with probe embedding_calls_example processDocument_example show ?thesis by (simp add: flaky_embedder_def)
qed

section \<open>Properties of the graph builder\<close>

lemma find_node_None:
  "find (\<lambda>n. node_id n = i) nodes = None \<longleftrightarrow> i \<notin> node_id ` set nodes"
  by (induction nodes) auto

lemma add_entity_inv:
  assumes "distinct (map node_id nodes)" "links_resolve nodes links" "chunkId \<in> node_id ` set nodes"
  shows "distinct (map node_id (fst (add_entity chunkId ent (nodes, links)))) \<and>
         links_resolve (fst (add_entity chunkId ent (nodes, links)))
           (snd (add_entity chunkId ent (nodes, links))) \<and>
         set (map node_id (fst (add_entity chunkId ent (nodes, links)))) =
           insert (str ''ent_'' @ ent) (node_id ` set nodes)"
  using assms by (auto simp add: add_entity_def Let_def find_node_None links_resolve_def)

lemma fold_add_entity_inv:
  assumes "distinct (map node_id (fst g))" "links_resolve (fst g) (snd g)"
    "chunkId \<in> node_id ` set (fst g)"
  shows "distinct (map node_id (fst (fold (add_entity chunkId) ents g))) \<and>
         links_resolve (fst (fold (add_entity chunkId) ents g))
           (snd (fold (add_entity chunkId) ents g)) \<and>
         node_id ` set (fst (fold (add_entity chunkId) ents g)) =
           node_id ` set (fst g) \<union> (\<lambda>ent. str ''ent_'' @ ent) ` set ents"
  using assms
proof (induction ents arbitrary: g)
  case Nil
  then show ?case by simp
next
  case (Cons ent ents)
  obtain nodes links where g: "g = (nodes, links)" by (cases g)
  let ?g' = "add_entity chunkId ent g"
  from add_entity_inv [of nodes links chunkId ent] Cons.prems g
  have d: "distinct (map node_id (fst ?g'))" and r: "links_resolve (fst ?g') (snd ?g')"
    and s: "node_id ` set (fst ?g') = insert (str ''ent_'' @ ent) (node_id ` set (fst g))"
    by simp_all
  from s Cons.prems(3) have c: "chunkId \<in> node_id ` set (fst ?g')" by blast
  from Cons.IH [OF d r c] s show ?case by auto
qed

lemma add_chunk_inv:
  assumes "distinct (map node_id nodes)" "links_resolve nodes links"
    "chunk_id chunk \<notin> node_id ` set nodes" "chunk_docId chunk \<in> node_id ` set nodes"
  shows "distinct (map node_id (fst (add_chunk chunk (nodes, links)))) \<and>
         links_resolve (fst (add_chunk chunk (nodes, links))) (snd (add_chunk chunk (nodes, links))) \<and>
         node_id ` set (fst (add_chunk chunk (nodes, links))) =
           node_id ` set nodes \<union> {chunk_id chunk} \<union> entity_ids [chunk]"
proof -
  let ?n = "\<lparr>node_id = chunk_id chunk, node_type = NodeChunk, node_label = str ''Part'',
               node_data =
                 Some \<lparr>data_text = take 50 (chunk_text chunk) @ str ''...'',
                       data_fullText = chunk_text chunk\<rparr>,
               node_val = Some 10\<rparr>"
  let ?l = "\<lparr>link_source = chunk_docId chunk, link_target = chunk_id chunk,
               link_type = Contains, link_weight = None\<rparr>"
  let ?g = "(nodes @ [?n], links @ [?l])"
  have d: "distinct (map node_id (fst ?g))" using assms(1,3) by auto
  have r: "links_resolve (fst ?g) (snd ?g)"
    using assms(2,4) by (auto simp add: links_resolve_def)
  have c: "chunk_id chunk \<in> node_id ` set (fst ?g)" by simp
  have "add_chunk chunk (nodes, links) =
      fold (add_entity (chunk_id chunk)) (extractEntities (chunk_text chunk)) ?g"
    by (simp add: add_chunk_def)
  with fold_add_entity_inv [OF d r c, of "extractEntities (chunk_text chunk)"]
  show ?thesis by (auto simp add: entity_ids_def)
qed

lemma entity_ids_Cons: "entity_ids (c # cs) = entity_ids [c] \<union> entity_ids cs"
  by (simp add: entity_ids_def)

lemma fold_add_chunk_inv:
  assumes "distinct (map node_id (fst g))" "links_resolve (fst g) (snd g)"
    "distinct (map chunk_id chunks)"
    "\<forall>c \<in> set chunks. chunk_id c \<notin> node_id ` set (fst g) \<and> chunk_id c \<notin> entity_ids chunks \<and>
        chunk_docId c \<in> node_id ` set (fst g)"
  shows "distinct (map node_id (fst (fold add_chunk chunks g))) \<and>
         links_resolve (fst (fold add_chunk chunks g)) (snd (fold add_chunk chunks g))"
  using assms
proof (induction chunks arbitrary: g)
  case Nil
  then show ?case by simp
next
  case (Cons c cs)
  obtain nodes links where g: "g = (nodes, links)" by (cases g)
  let ?g' = "add_chunk c g"
  from Cons.prems g have "chunk_id c \<notin> node_id ` set nodes" "chunk_docId c \<in> node_id ` set nodes"
    by simp_all
  from add_chunk_inv [OF _ _ this, of links] Cons.prems(1,2) g
  have d: "distinct (map node_id (fst ?g'))" and r: "links_resolve (fst ?g') (snd ?g')"
    and s: "node_id ` set (fst ?g') = node_id ` set (fst g) \<union> {chunk_id c} \<union> entity_ids [c]"
    by simp_all
  have dc: "distinct (map chunk_id cs)" using Cons.prems(3) by simp
  have rest: "\<forall>c' \<in> set cs. chunk_id c' \<notin> node_id ` set (fst ?g') \<and> chunk_id c' \<notin> entity_ids cs \<and>
        chunk_docId c' \<in> node_id ` set (fst ?g')"
  proof
    fix c' assume c': "c' \<in> set cs"
    with Cons.prems(4) have a: "chunk_id c' \<notin> node_id ` set (fst g)"
      and b: "chunk_id c' \<notin> entity_ids (c # cs)" and e: "chunk_docId c' \<in> node_id ` set (fst g)"
      by simp_all
    have "chunk_id c \<notin> set (map chunk_id cs)" using Cons.prems(3) by simp
    moreover have "chunk_id c' \<in> set (map chunk_id cs)" using c' by simp
    ultimately have ne: "chunk_id c' \<noteq> chunk_id c" by metis
    have b1: "chunk_id c' \<notin> entity_ids [c]" and b2: "chunk_id c' \<notin> entity_ids cs"
      using b entity_ids_Cons [of c cs] by blast+
    have "chunk_id c' \<notin> node_id ` set (fst ?g')"
      unfolding s using a b1 ne by blast
    moreover have "chunk_docId c' \<in> node_id ` set (fst ?g')"
      unfolding s using e by blast
    ultimately show "chunk_id c' \<notin> node_id ` set (fst ?g') \<and> chunk_id c' \<notin> entity_ids cs \<and>
        chunk_docId c' \<in> node_id ` set (fst ?g')"
      using b2 by blast
  qed
  from Cons.IH [OF d r dc rest] show ?case by simp
qed

lemma fold_doc_nodes:
  "map node_id (fold (\<lambda>doc nodes. nodes @ [doc_node doc]) documents nodes0) =
     map node_id nodes0 @ map doc_id documents"
  by (induction documents arbitrary: nodes0) (simp_all add: doc_node_def)

text \<open>
  Claim C6, as the code has it: when the documents have pairwise distinct ids, the chunks
  have pairwise distinct ids, no chunk id is a document id or the id of an entity node
  of the chunks, and every chunk belongs to a document of the list, then no two nodes of
  the graph share an id and every link starts and ends at a node of the graph.
\<close>

theorem rebuildGraphFromChunks_wellformed:
  assumes "distinct (map doc_id documents)" and "distinct (map chunk_id chunks)"
    and "\<forall>c \<in> set chunks.
           chunk_id c \<notin> doc_id ` set documents \<and> chunk_id c \<notin> entity_ids chunks \<and>
           chunk_docId c \<in> doc_id ` set documents"
  shows "distinct (map node_id (graph_nodes (rebuildGraphFromChunks documents chunks))) \<and>
         (\<forall>l \<in> set (graph_links (rebuildGraphFromChunks documents chunks)).
            link_source l \<in> node_id ` set (graph_nodes (rebuildGraphFromChunks documents chunks)) \<and>
            link_target l \<in> node_id ` set (graph_nodes (rebuildGraphFromChunks documents chunks)))"
proof -
  let ?g0 = "(fold (\<lambda>doc nodes. nodes @ [doc_node doc]) documents [], [] :: GraphLink list)"
  have ids: "map node_id (fst ?g0) = map doc_id documents" by (simp add: fold_doc_nodes)
  then have set_ids: "node_id ` set (fst ?g0) = doc_id ` set documents"
    by (metis list.set_map)
  have d: "distinct (map node_id (fst ?g0))" using assms(1) ids by simp
  have r: "links_resolve (fst ?g0) (snd ?g0)" by (simp add: links_resolve_def)
  have h: "\<forall>c \<in> set chunks. chunk_id c \<notin> node_id ` set (fst ?g0) \<and> chunk_id c \<notin> entity_ids chunks \<and>
        chunk_docId c \<in> node_id ` set (fst ?g0)"
    using assms(3) unfolding set_ids .
  obtain nodes links where g: "fold add_chunk chunks ?g0 = (nodes, links)"
    by (cases "fold add_chunk chunks ?g0")
  from fold_add_chunk_inv [OF d r assms(2) h] g
  have "distinct (map node_id nodes)" and "links_resolve nodes links" by simp_all
  with g show ?thesis
    by (simp add: rebuildGraphFromChunks_def links_resolve_def)
qed

lemma extractEntities_foo_bar_foo: "extractEntities (str ''foo bar foo'') = [str ''foo'', str ''bar'']"
  by code_simp
lemma extractEntities_bar_baz: "extractEntities (str ''bar baz'') = [str ''bar'', str ''baz'']"
  by code_simp
lemma extractEntities_hi: "extractEntities (str ''hi'') = []"
  by code_simp

lemma rebuildGraphFromChunks_example:
  "map node_id (graph_nodes (rebuildGraphFromChunks [example_document (str ''d1'')]
      [chunk_of (str ''c1'') (str ''d1'') (str ''foo bar foo''),
       chunk_of (str ''c2'') (str ''d1'') (str ''bar baz'')])) =
   [str ''d1'', str ''c1'', str ''ent_foo'', str ''ent_bar'', str ''c2'', str ''ent_baz'']"
  apply (simp add: rebuildGraphFromChunks_def add_chunk_def doc_node_def
      example_document_def chunk_of_def extractEntities_foo_bar_foo extractEntities_bar_baz)
  apply (simp add: add_entity_def Let_def str_def)
  done

theorem rebuildGraphFromChunks_wellformed_witness:
  "distinct (map doc_id [example_document (str ''d1'')]) \<and>
   distinct (map chunk_id [chunk_of (str ''c1'') (str ''d1'') (str ''foo bar foo''),
       chunk_of (str ''c2'') (str ''d1'') (str ''bar baz'')]) \<and>
   entity_ids [chunk_of (str ''c1'') (str ''d1'') (str ''foo bar foo''),
       chunk_of (str ''c2'') (str ''d1'') (str ''bar baz'')] =
     {str ''ent_foo'', str ''ent_bar'', str ''ent_baz''} \<and>
   map node_id (graph_nodes (rebuildGraphFromChunks [example_document (str ''d1'')]
      [chunk_of (str ''c1'') (str ''d1'') (str ''foo bar foo''),
       chunk_of (str ''c2'') (str ''d1'') (str ''bar baz'')])) =
   [str ''d1'', str ''c1'', str ''ent_foo'', str ''ent_bar'', str ''c2'', str ''ent_baz''] \<and>
   distinct (map node_id (graph_nodes (rebuildGraphFromChunks [example_document (str ''d1'')]
      [chunk_of (str ''c1'') (str ''d1'') (str ''foo bar foo''),
       chunk_of (str ''c2'') (str ''d1'') (str ''bar baz'')])))"
proof -
  let ?docs = "[example_document (str ''d1'')]"
  let ?chunks = "[chunk_of (str ''c1'') (str ''d1'') (str ''foo bar foo''),
       chunk_of (str ''c2'') (str ''d1'') (str ''bar baz'')]"
  have e: "entity_ids ?chunks = {str ''ent_foo'', str ''ent_bar'', str ''ent_baz''}"
    apply (simp add: entity_ids_def chunk_of_def extractEntities_foo_bar_foo extractEntities_bar_baz)
    apply (auto simp add: str_def)
    done
  have 1: "distinct (map doc_id ?docs)" by simp
  have 2: "distinct (map chunk_id ?chunks)" by (simp add: chunk_of_def str_def)
  have 3: "\<forall>c \<in> set ?chunks.
           chunk_id c \<notin> doc_id ` set ?docs \<and> chunk_id c \<notin> entity_ids ?chunks \<and>
           chunk_docId c \<in> doc_id ` set ?docs"
    unfolding e by (simp add: chunk_of_def example_document_def str_def)
  from rebuildGraphFromChunks_wellformed [OF 1 2 3] 1 2 e rebuildGraphFromChunks_example show ?thesis by blast
qed

text \<open>
  Claim C6, as the specification states it, asks for distinct document ids and distinct
  chunk ids only. A chunk with the id of the document, owned by a document that is not
  in the list, gives two nodes of one id and a link from no node; a chunk with the id
  \<^verbatim>\<open>ent_foo\<close> after a chunk that mentions \<^verbatim>\<open>foo\<close> gives two nodes of one id.
\<close>

theorem rebuildGraphFromChunks_unconstrained_ids_refuted:
  "distinct (map doc_id [example_document (str ''a'')]) \<and>
   distinct (map chunk_id [chunk_of (str ''a'') (str ''zz'') (str ''hi'')]) \<and>
   map node_id (graph_nodes (rebuildGraphFromChunks [example_document (str ''a'')]
      [chunk_of (str ''a'') (str ''zz'') (str ''hi'')])) = [str ''a'', str ''a''] \<and>
   map link_source (graph_links (rebuildGraphFromChunks [example_document (str ''a'')]
      [chunk_of (str ''a'') (str ''zz'') (str ''hi'')])) = [str ''zz''] \<and>
   \<not> distinct (map node_id (graph_nodes (rebuildGraphFromChunks [example_document (str ''a'')]
      [chunk_of (str ''a'') (str ''zz'') (str ''hi'')]))) \<and>
   str ''zz'' \<notin> node_id ` set (graph_nodes (rebuildGraphFromChunks [example_document (str ''a'')]
      [chunk_of (str ''a'') (str ''zz'') (str ''hi'')])) \<and>
   distinct (map chunk_id [chunk_of (str ''c1'') (str ''a'') (str ''foo bar foo''),
       chunk_of (str ''ent_foo'') (str ''a'') (str ''hi'')]) \<and>
   map node_id (graph_nodes (rebuildGraphFromChunks [example_document (str ''a'')]
      [chunk_of (str ''c1'') (str ''a'') (str ''foo bar foo''),
       chunk_of (str ''ent_foo'') (str ''a'') (str ''hi'')])) =
     [str ''a'', str ''c1'', str ''ent_foo'', str ''ent_bar'', str ''ent_foo'']"
  apply (simp add: rebuildGraphFromChunks_def add_chunk_def doc_node_def
      example_document_def chunk_of_def extractEntities_foo_bar_foo extractEntities_hi)
  apply (simp add: add_entity_def Let_def str_def)
  done

end
